theory Spec2Isabelle
  imports Complex_Main "HOL-Library.Sublist"
begin

section \<open>The JavaScript values and built-ins that App.tsx relies on\<close>

text \<open>
  A JavaScript string is modelled as a \<^typ>\<open>string\<close>, the UTF-8 bytes of its text: an
  ASCII character is one character, a character beyond ASCII is several. One well-formed
  text lies inside another as code units exactly when it does as UTF-8 bytes, and the
  separators of \<open>split\<close> in App.tsx are ASCII. A number that arrives
  in a JSON payload is a finite double; every finite double is a real number and the
  comparisons \<open>>\<close>, \<open>>=\<close>, \<open><=\<close> of JavaScript are exact on them, so such numbers are
  modelled as \<^typ>\<open>real\<close>. The value \<open>undefined\<close> is \<^term>\<open>None\<close>.
\<close>

definition js_index :: "'a list \<Rightarrow> int \<Rightarrow> 'a option" where
  \<comment> \<open>\<open>arr[i]\<close>: \<open>undefined\<close> outside \<open>0 .. arr.length - 1\<close>, also for a negative \<open>i\<close>.\<close>
  "js_index arr i = (if 0 \<le> i \<and> i < int (length arr) then Some (arr ! nat i) else None)"

definition js_gt :: "real option \<Rightarrow> real option \<Rightarrow> bool" where
  \<comment> \<open>\<open>a > b\<close>: an \<open>undefined\<close> operand is converted to NaN, and every comparison
      with NaN is false.\<close>
  "js_gt a b = (case (a, b) of (Some x, Some y) \<Rightarrow> x > y | _ \<Rightarrow> False)"

definition truthy :: "string option \<Rightarrow> bool" where
  \<comment> \<open>Truthiness of a value that is a string or \<open>undefined\<close>: only \<open>undefined\<close> and the
      empty string are falsy.\<close>
  "truthy v = (case v of None \<Rightarrow> False | Some s \<Rightarrow> s \<noteq> [])"

subsection \<open>Strings\<close>

definition lower_char :: "char \<Rightarrow> char" where
  \<comment> \<open>The lower-case mapping on the letters \<open>A\<close> .. \<open>Z\<close>; every other byte is kept.\<close>
  "lower_char c =
     (if 65 \<le> (of_char c :: nat) \<and> (of_char c :: nat) \<le> 90
      then char_of ((of_char c :: nat) + 32) else c)"

definition toLowerCase :: "string \<Rightarrow> string" where
  \<comment> \<open>\<open>String.prototype.toLowerCase\<close> on ASCII text only: there the built-in maps
      \<open>A\<close> .. \<open>Z\<close> and keeps the rest. Letters beyond ASCII, which the built-in also
      maps, are not computed here; the filter effect below takes the lower-casing of
      arbitrary text as a parameter.\<close>
  "toLowerCase s = map lower_char s"

definition startsAt :: "string \<Rightarrow> string \<Rightarrow> bool" where
  \<comment> \<open>The search string \<open>t\<close> is read off the front of \<open>s\<close>.\<close>
  "startsAt s t = (take (length t) s = t)"

fun str_includes :: "string \<Rightarrow> string \<Rightarrow> bool" where
  \<comment> \<open>\<open>s.includes(t)\<close>: try every start position from the left.\<close>
  "str_includes [] t = (t = [])"
| "str_includes (c # cs) t = (startsAt (c # cs) t \<or> str_includes cs t)"

fun split_go :: "string \<Rightarrow> string \<Rightarrow> string \<Rightarrow> string list" where
  \<comment> \<open>\<open>split_go sep cur s\<close>: \<open>cur\<close> is the piece read so far, reversed.\<close>
  "split_go sep cur [] = [rev cur]"
| "split_go sep cur (c # cs) =
     (if sep \<noteq> [] \<and> startsAt (c # cs) sep
      then rev cur # split_go sep [] (drop (length sep - 1) cs)
      else split_go sep (c # cur) cs)"

definition split :: "string \<Rightarrow> string \<Rightarrow> string list" where
  \<comment> \<open>\<open>s.split(sep)\<close> with a string separator and no limit: the pieces between the
      occurrences of \<open>sep\<close>, found from the left without overlap; with the empty
      separator, the characters of \<open>s\<close>.\<close>
  "split s sep = (if sep = [] then map (\<lambda>c. [c]) s else split_go sep [] s)"

definition nth_opt :: "'a list \<Rightarrow> nat \<Rightarrow> 'a option" where
  \<comment> \<open>The \<open>i\<close>-th variable of an array destructuring \<open>const [a, b] = arr\<close>.\<close>
  "nth_opt arr i = (if i < length arr then Some (arr ! i) else None)"

definition is_digit :: "char \<Rightarrow> bool" where
  "is_digit c = (48 \<le> (of_char c :: nat) \<and> (of_char c :: nat) \<le> 57)"

fun digits_value :: "nat \<Rightarrow> string \<Rightarrow> nat" where
  "digits_value acc [] = acc"
| "digits_value acc (c # cs) = digits_value (10 * acc + ((of_char c :: nat) - 48)) cs"

definition Number :: "string option \<Rightarrow> real option" where
  \<comment> \<open>\<open>Number(v)\<close> on the fragment the column filter uses: a string of 1 to 15 decimal
      digits denotes its value, which is below \<open>2^53\<close> and so a double without rounding.
      \<^term>\<open>None\<close> stands for every argument outside this fragment (\<open>undefined\<close>,
      signs, fractions, exponents, other text, longer digit strings).\<close>
  "Number v =
     (case v of
        None \<Rightarrow> None
      | Some s \<Rightarrow>
          if s \<noteq> [] \<and> length s \<le> 15 \<and> list_all is_digit s
          then Some (real (digits_value 0 s)) else None)"

function show_nat :: "nat \<Rightarrow> string" where
  \<comment> \<open>The decimal text a template literal gives a non-negative integer (below \<open>10^21\<close>,
      where JavaScript changes to exponent notation).\<close>
  "show_nat n =
     (if n < 10 then [char_of (48 + n)]
      else show_nat (n div 10) @ [char_of (48 + n mod 10)])"
  by pat_completeness auto
termination
  by (relation "measure (\<lambda>n. n)") auto

declare show_nat.simps [simp del]

fun array_filter_loop :: "('a \<Rightarrow> bool) \<Rightarrow> 'a list \<Rightarrow> 'a list \<Rightarrow> 'a list" where
  \<comment> \<open>\<open>Array.prototype.filter\<close>: walk the array from index 0 and append each element
      the callback accepts to the new array.\<close>
  "array_filter_loop p [] acc = acc"
| "array_filter_loop p (x # xs) acc = array_filter_loop p xs (if p x then acc @ [x] else acc)"

definition array_filter :: "('a \<Rightarrow> bool) \<Rightarrow> 'a list \<Rightarrow> 'a list" where
  "array_filter p xs = array_filter_loop p xs []"

section \<open>Coin records\<close>

record sparkline =
  price :: "real list"

record CoinType =
  name :: string
  image :: string
  current_price :: real
  circulating_supply :: real
  sparkline_in_7d :: sparkline

section \<open>The state of the component\<close>

text \<open>
  The two fields of the currency come from an array destructuring in
  \<open>handleCurrencyChange\<close>, so each may be \<open>undefined\<close>. The field \<open>label\<close> of the sort
  order is \<open>sort_label\<close> here, as the currency has a field of that name.
\<close>

record currency_sel =
  label :: "string option"
  symbol :: "string option"

record sort_sel =
  sort_label :: string
  key :: string

record pagination_st =
  totalCount :: nat
  pageSize :: nat
  current :: nat

record state =
  currency :: currency_sel
  sortOrder :: sort_sel
  pagination :: pagination_st
  data :: "CoinType list"
  filterQuery :: string
  filteredData :: "CoinType list"
  isLoading :: bool

definition euro :: string where
  \<comment> \<open>The euro sign, U+20AC, in UTF-8.\<close>
  "euro = [CHR 0xE2, CHR 0x82, CHR 0xAC]"

definition currencyItems :: "(string \<times> string) list" where
  \<comment> \<open>The pairs (key, label) of the currency menu.\<close>
  "currencyItems = [(''USD $'', ''USD''), (''EUR '' @ euro, ''EUR'')]"

definition sortOrderItems :: "(string \<times> string) list" where
  \<comment> \<open>The pairs (key, label) of the sort-order menu.\<close>
  "sortOrderItems =
     [(''market_cap_desc'', ''Market Cap Decending''),
      (''market_cap_asc'', ''Market Cap Ascending'')]"

definition init :: state where
  \<comment> \<open>The arguments of the \<open>useState\<close> calls.\<close>
  "init =
     \<lparr> currency = \<lparr> label = Some ''USD'', symbol = Some ''$'' \<rparr>,
       sortOrder = \<lparr> sort_label = ''Market Cap Decending'', key = ''market_cap_desc'' \<rparr>,
       pagination = \<lparr> totalCount = 10000, pageSize = 10, current = 1 \<rparr>,
       data = [],
       filterQuery = [],
       filteredData = [],
       isLoading = False \<rparr>"

section \<open>The fetch effect\<close>

text \<open>
  The effect hands the body of a response to \<open>setData\<close> as it arrives, without looking
  at it, so the calls and the responses are given for a body of any type \<open>'b\<close>. A body
  that is an array of coin records is a \<^typ>\<open>CoinType list\<close>; a body that is not, such as
  the text of a payload that does not parse, has another type. The state of the component
  is modelled for the bodies that are arrays of coin records.
\<close>

datatype 'b action =
    SetIsLoading bool
  | AxiosGet string
  | SetData 'b
  | ToastError string

datatype 'b response = Resolved 'b | Rejected

definition request_url :: "state \<Rightarrow> string option" where
  \<comment> \<open>The template literal of the request. \<open>currency.label\<close> is \<open>undefined\<close> only
      after a menu key with no text at all, and \<open>undefined.toLowerCase()\<close> throws:
      that is \<^term>\<open>None\<close>.\<close>
  "request_url st =
     (case label (currency st) of
        None \<Rightarrow> None
      | Some l \<Rightarrow>
          Some (''https://api.coingecko.com/api/v3/coins/markets?vs_currency='' @ toLowerCase l
                @ ''&order='' @ toLowerCase (key (sortOrder st))
                @ ''&per_page='' @ show_nat (pageSize (pagination st))
                @ ''&page='' @ show_nat (current (pagination st))
                @ ''&sparkline=true''))"

definition fetch_effect :: "state \<Rightarrow> 'b response \<Rightarrow> 'b action list" where
  \<comment> \<open>One run of the asynchronous function of the first \<open>useEffect\<close>, as the sequence
      of the calls it makes; \<open>resp\<close> is how the promise of \<open>axios.get\<close> settles. An
      exception inside \<open>try\<close>, from the template literal or from the request, goes to
      \<open>catch\<close>.\<close>
  "fetch_effect st resp =
     SetIsLoading True #
     (case request_url st of
        None \<Rightarrow> [ToastError ''Failed to fetch data, try again later'']
      | Some url \<Rightarrow>
          AxiosGet url #
          (case resp of
             Resolved d \<Rightarrow> [SetData d]
           | Rejected \<Rightarrow> [ToastError ''Failed to fetch data, try again later''])) @
     [SetIsLoading False]"

fun apply_action :: "state \<Rightarrow> CoinType list action \<Rightarrow> state" where
  "apply_action st (SetIsLoading b) = st\<lparr>isLoading := b\<rparr>"
| "apply_action st (AxiosGet url) = st"
| "apply_action st (SetData d) = st\<lparr>data := d\<rparr>"
| "apply_action st (ToastError m) = st"

definition run_actions :: "CoinType list action list \<Rightarrow> state \<Rightarrow> state" where
  "run_actions as st = foldl apply_action st as"

section \<open>The filter effect and the rows of the table\<close>

definition filter_effect_with :: "(string \<Rightarrow> string) \<Rightarrow> state \<Rightarrow> state" where
  \<comment> \<open>The second \<open>useEffect\<close>; \<open>lc\<close> is \<open>String.prototype.toLowerCase\<close>, whatever it
      gives on the names and on the query.\<close>
  "filter_effect_with lc st =
     (if filterQuery st \<noteq> [] then
        st\<lparr>filteredData :=
             array_filter
               (\<lambda>coin. str_includes (lc (name coin)) (lc (filterQuery st)))
               (data st)\<rparr>
      else st)"

definition filter_effect :: "state \<Rightarrow> state" where
  \<comment> \<open>The effect on ASCII text.\<close>
  "filter_effect st = filter_effect_with toLowerCase st"

definition dataSource :: "state \<Rightarrow> CoinType list" where
  "dataSource st = (if filterQuery st \<noteq> [] then filteredData st else data st)"

definition setFilterQuery :: "string \<Rightarrow> state \<Rightarrow> state" where
  "setFilterQuery q st = st\<lparr>filterQuery := q\<rparr>"

section \<open>The handlers of the menus and of the pagination control\<close>

definition handleCurrencyChange :: "string \<Rightarrow> state \<Rightarrow> state" where
  "handleCurrencyChange k st =
     st\<lparr> pagination := (pagination st)\<lparr>current := 1\<rparr>,
         currency := \<lparr> label = nth_opt (split k '' '') 0,
                       symbol = nth_opt (split k '' '') 1 \<rparr> \<rparr>"

definition handleSortOrder :: "string \<Rightarrow> state \<Rightarrow> state" where
  "handleSortOrder k st =
     (if k = ''market_cap_desc'' then
        st\<lparr> pagination := (pagination st)\<lparr>current := 1\<rparr>,
            sortOrder := \<lparr> sort_label = ''Market Cap Decending'', key = ''market_cap_desc'' \<rparr> \<rparr>
      else if k = ''market_cap_asc'' then
        st\<lparr> pagination := (pagination st)\<lparr>current := 1\<rparr>,
            sortOrder := \<lparr> sort_label = ''Market Cap Ascending'', key = ''market_cap_asc'' \<rparr> \<rparr>
      else st)"

definition onChange :: "nat \<Rightarrow> nat \<Rightarrow> state \<Rightarrow> state" where
  "onChange cur sz st = st\<lparr> pagination := (pagination st)\<lparr>current := cur, pageSize := sz\<rparr> \<rparr>"

section \<open>The price column\<close>

definition filters :: "(string \<times> string) list" where
  \<comment> \<open>The pairs (text, value) of the filter menu of the price column.\<close>
  "filters =
     [(''0 - 100'', ''0 - 100''),
      (''100 - 200'', ''100 - 200''),
      (''200 - 300'', ''200 - 300''),
      (''300 - 400'', ''300 - 400''),
      (''400 - 500'', ''400 - 500''),
      (''500 - 600'', ''500 - 600''),
      (''600 - 700'', ''600 - 700''),
      (''> 700'', ''700'')]"

definition onFilter :: "string \<Rightarrow> CoinType \<Rightarrow> bool option" where
  \<comment> \<open>\<^term>\<open>None\<close>: a bound outside the fragment of \<^const>\<open>Number\<close>. The second
      comparison is made only when the first holds, as \<open>&&\<close> does.\<close>
  "onFilter v record =
     (let parts = split v '' - '';
          min = nth_opt parts 0;
          max = nth_opt parts 1
      in if \<not> truthy max then
           (case Number min of
              None \<Rightarrow> None
            | Some lo \<Rightarrow> Some (current_price record \<ge> lo))
         else
           (case Number min of
              None \<Rightarrow> None
            | Some lo \<Rightarrow>
                if current_price record \<ge> lo then
                  (case Number max of
                     None \<Rightarrow> None
                   | Some hi \<Rightarrow> Some (current_price record \<le> hi))
                else Some False))"

definition sorter :: "CoinType \<Rightarrow> CoinType \<Rightarrow> real" where
  "sorter a b = current_price a - current_price b"

section \<open>Events\<close>

datatype event =
    CurrencyClick string
  | SortClick string
  | PageChange nat nat
  | SearchInput string
  | Fetch "CoinType list response"

fun step :: "state \<Rightarrow> event \<Rightarrow> state" where
  \<comment> \<open>One event of the user interface, followed by the filter effect when one of its
      dependencies \<open>[filterQuery, data]\<close> has changed: a new query text, or the array of
      a new response. \<open>Fetch resp\<close> is one run of the fetch effect for the parameters
      of the state, settled with \<open>resp\<close>.\<close>
  "step st (CurrencyClick k) = handleCurrencyChange k st"
| "step st (SortClick k) = handleSortOrder k st"
| "step st (PageChange cur sz) = onChange cur sz st"
| "step st (SearchInput q) =
     (if q = filterQuery st then st else filter_effect (setFilterQuery q st))"
| "step st (Fetch resp) =
     (case (request_url st, resp) of
        (Some url, Resolved d) \<Rightarrow> filter_effect (run_actions (fetch_effect st resp) st)
      | _ \<Rightarrow> run_actions (fetch_effect st resp) st)"

definition run :: "event list \<Rightarrow> state" where
  \<comment> \<open>The state after the events, from the mount of the component.\<close>
  "run evs = foldl step init evs"

definition coin :: "string \<Rightarrow> real \<Rightarrow> real list \<Rightarrow> CoinType" where
  \<comment> \<open>A coin record with the given name, price and trend series, for concrete cases.\<close>
  "coin n p s =
     \<lparr> name = n, image = [], current_price = p, circulating_supply = 0,
       sparkline_in_7d = \<lparr> price = s \<rparr> \<rparr>"

section \<open>The colour of the trend line\<close>

definition stroke :: "CoinType \<Rightarrow> string" where
  "stroke record =
     (if js_gt (js_index (price (sparkline_in_7d record)) 0)
               (js_index (price (sparkline_in_7d record))
                  (int (length (price (sparkline_in_7d record))) - 1))
      then ''#d61616''
      else ''#19db39'')"


section \<open>Observations on the calls of an effect\<close>

fun is_AxiosGet :: "'b action \<Rightarrow> bool" where
  "is_AxiosGet (AxiosGet url) = True"
| "is_AxiosGet a = False"

fun is_SetData :: "'b action \<Rightarrow> bool" where
  "is_SetData (SetData d) = True"
| "is_SetData a = False"

fun is_ToastError :: "'b action \<Rightarrow> bool" where
  "is_ToastError (ToastError m) = True"
| "is_ToastError a = False"

section \<open>What the specification says, in its own words\<close>






definition ascii_lowering :: "(string \<Rightarrow> string) \<Rightarrow> state \<Rightarrow> bool" where
  \<comment> \<open>On the query and on the fetched names of the state, the lower-casing \<open>lc\<close> is the
      one of ASCII text; so it is for \<open>String.prototype.toLowerCase\<close> when they are ASCII.\<close>
  "ascii_lowering lc st =
     (lc (filterQuery st) = toLowerCase (filterQuery st) \<and>
      list_all (\<lambda>r. lc (name r) = toLowerCase (name r)) (data st))"

definition spec_buckets :: "(string \<times> real \<times> real option) list" where
  \<comment> \<open>The fixed buckets of the price column: text, minimum, and maximum if there is one.\<close>
  "spec_buckets =
     [(''0 - 100'', 0, Some 100),
      (''100 - 200'', 100, Some 200),
      (''200 - 300'', 200, Some 300),
      (''300 - 400'', 300, Some 400),
      (''400 - 500'', 400, Some 500),
      (''500 - 600'', 500, Some 600),
      (''600 - 700'', 600, Some 700),
      (''> 700'', 700, None)]"

definition spec_bucket_accepts :: "real \<times> real option \<Rightarrow> real \<Rightarrow> bool" where
  \<comment> \<open>"value \<open>\<ge>\<close> bucket-min AND (bucket has no max OR value \<open>\<le>\<close> bucket-max)".\<close>
  "spec_bucket_accepts b v =
     (v \<ge> fst b \<and> (case snd b of None \<Rightarrow> True | Some m \<Rightarrow> v \<le> m))"

definition short_digits :: "string \<Rightarrow> bool" where
  \<comment> \<open>The texts of bucket bounds: 1 to 15 decimal digits.\<close>
  "short_digits s = (s \<noteq> [] \<and> length s \<le> 15 \<and> list_all is_digit s)"

definition currency_consistent :: "currency_sel \<Rightarrow> bool" where
  "currency_consistent c =
     ((label c = Some ''USD'' \<longrightarrow> symbol c = Some ''$'') \<and>
      (label c = Some ''EUR'' \<longrightarrow> symbol c = Some euro))"

definition currency_menu_event :: "event \<Rightarrow> bool" where
  \<comment> \<open>A click on the currency menu carries the key of one of its items.\<close>
  "currency_menu_event ev =
     (case ev of
        CurrencyClick k \<Rightarrow> k \<in> set (map fst currencyItems)
      | _ \<Rightarrow> True)"

definition fetched_coins :: state where
  \<comment> \<open>The state of the search scenario before the search: three fetched coins.\<close>
  "fetched_coins =
     init\<lparr> data := [coin ''Bitcoin'' 1 [], coin ''Ethereum'' 2 [], coin ''Bitcoin Cash'' 3 []] \<rparr>"

definition three_coins :: state where
  \<comment> \<open>The same with the query \<open>bit\<close> in the search box.\<close>
  "three_coins = fetched_coins\<lparr> filterQuery := ''bit'' \<rparr>"

definition page_seven :: state where
  \<comment> \<open>The initial state moved to page 7.\<close>
  "page_seven = init\<lparr> pagination := \<lparr> totalCount = 10000, pageSize = 10, current = 7 \<rparr> \<rparr>"

section \<open>Properties of the trend colour\<close>

lemma js_index_first: "xs \<noteq> [] \<Longrightarrow> js_index xs 0 = Some (xs ! 0)"
  by (cases xs) (simp_all add: js_index_def)

lemma js_index_final: "xs \<noteq> [] \<Longrightarrow> js_index xs (int (length xs) - 1) = Some (xs ! (length xs - 1))"
proof -
  assume ne: "xs \<noteq> []"
  then have "nat (int (length xs) - 1) = length xs - 1" by simp
  moreover from ne have "0 \<le> int (length xs) - 1" by (cases xs) simp_all
  ultimately show ?thesis using ne by (simp add: js_index_def)
qed

lemma js_index_empty: "js_index [] i = None"
  by (simp add: js_index_def)

lemma stroke_nonempty:
  "price (sparkline_in_7d r) \<noteq> [] \<Longrightarrow>
   stroke r =
     (if price (sparkline_in_7d r) ! 0
           > price (sparkline_in_7d r) ! (length (price (sparkline_in_7d r)) - 1)
      then ''#d61616'' else ''#19db39'')"
  by (simp add: stroke_def js_index_first js_index_final js_gt_def)

text \<open>
  Claim C4. For a trend series of at least two values, the line is green (\<open>#19db39\<close>)
  exactly when the last value is at least the first one, and red (\<open>#d61616\<close>) exactly
  when it is not; the series \<open>[100, 100]\<close> is drawn green.
\<close>

theorem stroke_green_iff:
  "2 \<le> length (price (sparkline_in_7d r)) \<Longrightarrow>
   (stroke r = ''#19db39'') =
     (price (sparkline_in_7d r) ! (length (price (sparkline_in_7d r)) - 1)
        \<ge> price (sparkline_in_7d r) ! 0) \<and>
   (stroke r = ''#d61616'') =
     (\<not> price (sparkline_in_7d r) ! (length (price (sparkline_in_7d r)) - 1)
        \<ge> price (sparkline_in_7d r) ! 0)"
proof -
  assume "2 \<le> length (price (sparkline_in_7d r))"
  then have ne: "price (sparkline_in_7d r) \<noteq> []" by auto
  show ?thesis
    by (simp add: stroke_nonempty [OF ne] not_less not_le)
qed

theorem stroke_green_iff_witness:
  "2 \<le> length (price (sparkline_in_7d (coin ''Bitcoin'' 1 [100, 100]))) \<and>
   stroke (coin ''Bitcoin'' 1 [100, 100]) = ''#19db39'' \<and>
   2 \<le> length (price (sparkline_in_7d (coin ''Bitcoin'' 1 [100, 99]))) \<and>
   stroke (coin ''Bitcoin'' 1 [100, 99]) = ''#d61616''"
  using stroke_green_iff [of "coin ''Bitcoin'' 1 [100, 100]"]
        stroke_green_iff [of "coin ''Bitcoin'' 1 [100, 99]"]
  by (simp add: coin_def)

text \<open>
  Claim C9. When the trend series of a record is not empty, the two reads of the colour
  computation, at index 0 and at index \<open>length - 1\<close>, are inside the array: neither is
  \<open>undefined\<close>. When the series is empty both reads are outside it, the comparison is
  false and the colour is green.
\<close>

theorem stroke_accesses:
  "(price (sparkline_in_7d r) \<noteq> [] \<longrightarrow>
      js_index (price (sparkline_in_7d r)) 0 \<noteq> None \<and>
      js_index (price (sparkline_in_7d r)) (int (length (price (sparkline_in_7d r))) - 1)
        \<noteq> None) \<and>
   (price (sparkline_in_7d r) = [] \<longrightarrow>
      js_index (price (sparkline_in_7d r)) 0 = None \<and>
      js_index (price (sparkline_in_7d r)) (int (length (price (sparkline_in_7d r))) - 1)
        = None \<and>
      stroke r = ''#19db39'')"
  by (simp add: js_index_first js_index_final js_index_empty stroke_def js_gt_def)

theorem stroke_accesses_witness:
  "price (sparkline_in_7d (coin ''Bitcoin'' 1 [7])) \<noteq> [] \<and>
   js_index [7::real] 0 \<noteq> None \<and>
   js_index [7::real] (int (length [7::real]) - 1) \<noteq> None \<and>
   price (sparkline_in_7d (coin ''Bitcoin'' 1 [])) = [] \<and>
   js_index ([]::real list) 0 = None \<and>
   js_index ([]::real list) (int (length ([]::real list)) - 1) = None \<and>
   stroke (coin ''Bitcoin'' 1 []) = ''#19db39''"
  using stroke_accesses [of "coin ''Bitcoin'' 1 [7]"] stroke_accesses [of "coin ''Bitcoin'' 1 []"]
  by (simp add: coin_def)

section \<open>Frame properties of the effects\<close>

lemma pagination_apply_action: "pagination (apply_action st a) = pagination st"
  by (cases a) simp_all

lemma currency_apply_action: "currency (apply_action st a) = currency st"
  by (cases a) simp_all

lemma pagination_run_actions: "pagination (run_actions as st) = pagination st"
  unfolding run_actions_def
  by (induction as arbitrary: st) (simp_all add: pagination_apply_action)

lemma currency_run_actions: "currency (run_actions as st) = currency st"
  unfolding run_actions_def
  by (induction as arbitrary: st) (simp_all add: currency_apply_action)

lemma pagination_filter_effect: "pagination (filter_effect st) = pagination st"
  by (simp add: filter_effect_def filter_effect_with_def)

lemma currency_filter_effect: "currency (filter_effect st) = currency st"
  by (simp add: filter_effect_def filter_effect_with_def)

lemma totalCount_step: "totalCount (pagination (step st ev)) = totalCount (pagination st)"
  by (cases ev)
     (simp_all add: handleCurrencyChange_def handleSortOrder_def onChange_def
        setFilterQuery_def pagination_filter_effect pagination_run_actions
        split: option.split response.split)

lemma totalCount_foldl_step:
  "totalCount (pagination (foldl step st evs)) = totalCount (pagination st)"
  by (induction evs arbitrary: st) (simp_all add: totalCount_step)

section \<open>Pagination\<close>

text \<open>
  Claim C2. Whatever the page before, the handler of a currency selection sets the
  current page to 1, and so does the handler of a sort-order selection, whose key is one
  of the keys of the sort-order menu.
\<close>

theorem reset_page:
  "current (pagination (handleCurrencyChange k st)) = 1 \<and>
   (k' \<in> set (map fst sortOrderItems) \<longrightarrow>
      current (pagination (handleSortOrder k' st)) = 1)"
  by (auto simp: handleCurrencyChange_def handleSortOrder_def sortOrderItems_def)

theorem reset_page_witness:
  "current (pagination page_seven) = 7 \<and>
   current (pagination (handleCurrencyChange (''EUR '' @ euro) page_seven)) = 1 \<and>
   ''market_cap_asc'' \<in> set (map fst sortOrderItems) \<and>
   current (pagination (handleSortOrder ''market_cap_asc'' page_seven)) = 1"
  using reset_page [of "''EUR '' @ euro" page_seven "''market_cap_asc''"]
  by (simp add: sortOrderItems_def page_seven_def)

text \<open>
  Claim C8. The total count of the pagination is the constant 10000 of the initial state:
  no event (a click on either menu, a change of page or page size, a typed query, a fetch
  that succeeds or fails) changes it, so it is 10000 in every state the component reaches.
\<close>

theorem totalCount_fixed:
  "totalCount (pagination init) = 10000 \<and>
   totalCount (pagination (step st ev)) = totalCount (pagination st) \<and>
   totalCount (pagination (run evs)) = 10000"
proof -
  have "totalCount (pagination init) = 10000" by (simp add: init_def)
  moreover have "totalCount (pagination (run evs)) = totalCount (pagination init)"
    unfolding run_def by (rule totalCount_foldl_step)
  ultimately show ?thesis by (simp add: totalCount_step)
qed

theorem totalCount_fixed_witness:
  "totalCount (pagination (step page_seven (PageChange 3 20))) = totalCount (pagination page_seven) \<and>
   totalCount (pagination (run [PageChange 3 20, CurrencyClick (''EUR '' @ euro),
      SortClick ''market_cap_asc'', Fetch Rejected, Fetch (Resolved [coin ''Bitcoin'' 1 []]),
      SearchInput ''bit''])) = 10000"
  using totalCount_fixed [of page_seven "PageChange 3 20"
      "[PageChange 3 20, CurrencyClick (''EUR '' @ euro),
        SortClick ''market_cap_asc'', Fetch Rejected, Fetch (Resolved [coin ''Bitcoin'' 1 []]),
        SearchInput ''bit'']"]
  by simp

section \<open>The currency selection\<close>

lemma split_usd: "split ''USD $'' '' '' = [''USD'', ''$'']"
  by (simp add: split_def startsAt_def)

lemma split_eur: "split (''EUR '' @ euro) '' '' = [''EUR'', euro]"
  by (simp add: split_def startsAt_def euro_def)

lemma currency_menu_click:
  "k \<in> set (map fst currencyItems) \<Longrightarrow>
   currency (handleCurrencyChange k st) = \<lparr> label = Some ''USD'', symbol = Some ''$'' \<rparr> \<or>
   currency (handleCurrencyChange k st) = \<lparr> label = Some ''EUR'', symbol = Some euro \<rparr>"
  by (auto simp: currencyItems_def handleCurrencyChange_def split_usd split_eur [simplified]
        nth_opt_def)

lemma consistent_step:
  assumes "currency_menu_event ev" and "currency_consistent (currency st)"
  shows "currency_consistent (currency (step st ev))"
proof (cases ev)
  case (CurrencyClick k)
  with assms(1) have "k \<in> set (map fst currencyItems)"
    by (simp add: currency_menu_event_def)
  from currency_menu_click [OF this, of st] CurrencyClick show ?thesis
    by (auto simp: currency_consistent_def)
next
  case (SortClick k)
  with assms(2) show ?thesis by (simp add: handleSortOrder_def)
next
  case (PageChange c s)
  with assms(2) show ?thesis by (simp add: onChange_def)
next
  case (SearchInput q)
  with assms(2) show ?thesis by (simp add: setFilterQuery_def currency_filter_effect)
next
  case (Fetch r)
  with assms(2) show ?thesis
    by (simp add: currency_filter_effect currency_run_actions split: option.split response.split)
qed

lemma consistent_foldl:
  "list_all currency_menu_event evs \<Longrightarrow> currency_consistent (currency st) \<Longrightarrow>
   currency_consistent (currency (foldl step st evs))"
  by (induction evs arbitrary: st) (simp_all add: consistent_step)

text \<open>
  Claim C10. From the initial currency \<open>USD\<close>, \<open>$\<close>, after any sequence of events in which
  every currency selection carries one of the two keys of the currency menu, the label
  \<open>USD\<close> goes with the symbol \<open>$\<close> and the label \<open>EUR\<close> with the euro sign: the handler
  takes both fields from the two pieces of the key around its space.
\<close>

theorem currency_consistent_reachable:
  "list_all currency_menu_event evs \<Longrightarrow> currency_consistent (currency (run evs))"
  unfolding run_def
  by (rule consistent_foldl) (simp_all add: currency_consistent_def init_def)

theorem currency_consistent_reachable_witness:
  "list_all currency_menu_event
     [CurrencyClick (''EUR '' @ euro), PageChange 2 10, CurrencyClick ''USD $'',
      CurrencyClick (''EUR '' @ euro)] \<and>
   currency_consistent
     (currency (run [CurrencyClick (''EUR '' @ euro), PageChange 2 10, CurrencyClick ''USD $'',
        CurrencyClick (''EUR '' @ euro)]))"
  using currency_consistent_reachable
    [of "[CurrencyClick (''EUR '' @ euro), PageChange 2 10, CurrencyClick ''USD $'',
          CurrencyClick (''EUR '' @ euro)]"]
  by (simp add: currency_menu_event_def currencyItems_def)


section \<open>The fetch effect\<close>

lemma show_nat_1: "show_nat (Suc 0) = ''1''"
  by code_simp

lemma show_nat_10: "show_nat 10 = ''10''"
  by code_simp

lemma toLowerCase_USD: "toLowerCase ''USD'' = ''usd''"
  by code_simp

lemma toLowerCase_desc: "toLowerCase ''market_cap_desc'' = ''market_cap_desc''"
  by code_simp

lemma request_url_init:
  "request_url init =
     Some ''https://api.coingecko.com/api/v3/coins/markets?vs_currency=usd&order=market_cap_desc&per_page=10&page=1&sparkline=true''"
  by (simp add: request_url_def init_def toLowerCase_USD toLowerCase_desc show_nat_1 show_nat_10)

text \<open>
  Claim C5, for the fetches that fail by a rejected request. When the request is rejected
  (a network error, a status that is not a success) or building its address throws, the
  run of the effect never calls \<open>setData\<close>, so the coin collection of the state it is
  applied to stays as it was; it clears the loading flag exactly once, as its last call;
  it emits exactly one notification, with the text
  \<open>Failed to fetch data, try again later\<close>; and it sends at most one request, so
  nothing is retried.
\<close>

theorem fetch_failure:
  "request_url st = None \<or> resp = Rejected \<Longrightarrow>
   filter is_SetData (fetch_effect st resp) = [] \<and>
   data (run_actions (fetch_effect st resp) st') = data st' \<and>
   data (step st (Fetch resp)) = data st \<and>
   count_list (fetch_effect st resp) (SetIsLoading False) = 1 \<and>
   last (fetch_effect st resp) = SetIsLoading False \<and>
   isLoading (run_actions (fetch_effect st resp) st') = False \<and>
   filter is_ToastError (fetch_effect st resp)
     = [ToastError ''Failed to fetch data, try again later''] \<and>
   length (filter is_AxiosGet (fetch_effect st resp)) \<le> 1"
  by (cases "request_url st"; cases resp)
     (auto simp: fetch_effect_def run_actions_def)

theorem fetch_failure_witness:
  "(request_url init = None \<or> (Rejected :: CoinType list response) = Rejected) \<and>
   data (run_actions (fetch_effect init Rejected) three_coins) = data three_coins \<and>
   count_list (fetch_effect init (Rejected :: CoinType list response)) (SetIsLoading False) = 1 \<and>
   filter is_ToastError (fetch_effect init (Rejected :: CoinType list response))
     = [ToastError ''Failed to fetch data, try again later''] \<and>
   filter is_SetData (fetch_effect init (Rejected :: CoinType list response)) = []"
  using fetch_failure [of init Rejected three_coins]
  by simp

text \<open>
  Claim C5 as it is written covers every fetch failure, also a response that arrives with
  a malformed payload, and there it fails: nothing stands between \<open>await\<close> and
  \<open>setData\<close>, so when the request of the initial state resolves with the text \<open><html>\<close>
  as its body, the effect calls \<open>setData\<close> with that text and emits no notification.
\<close>

theorem fetch_malformed_payload_counterexample:
  "filter is_SetData (fetch_effect init (Resolved ''<html>'')) = [SetData ''<html>''] \<and>
   filter is_ToastError (fetch_effect init (Resolved ''<html>'')) = []"
  by (simp add: fetch_effect_def request_url_init)

text \<open>
  Claim C7. In the initial state the currency is \<open>USD\<close>, the sort key
  \<open>market_cap_desc\<close>, the page size 10 and the page 1; one run of the fetch effect in that
  state sends exactly one request, whose address carries the currency code, the sort key,
  the page size, the page number and the flag for the 7-day trend; and when the request
  succeeds, the coin collection becomes the response, as a whole and in its order.
\<close>

theorem initial_load:
  "label (currency init) = Some ''USD'' \<and>
   key (sortOrder init) = ''market_cap_desc'' \<and>
   pageSize (pagination init) = 10 \<and>
   current (pagination init) = 1 \<and>
   filter is_AxiosGet (fetch_effect init resp) =
     [AxiosGet ''https://api.coingecko.com/api/v3/coins/markets?vs_currency=usd&order=market_cap_desc&per_page=10&page=1&sparkline=true''] \<and>
   data (run_actions (fetch_effect init (Resolved d)) st') = d \<and>
   data (step init (Fetch (Resolved d))) = d"
  by (cases resp)
     (simp_all add: fetch_effect_def request_url_init run_actions_def filter_effect_def filter_effect_with_def,
      simp_all add: init_def)

theorem initial_load_witness:
  "filter is_AxiosGet (fetch_effect init (Rejected :: CoinType list response)) =
     [AxiosGet ''https://api.coingecko.com/api/v3/coins/markets?vs_currency=usd&order=market_cap_desc&per_page=10&page=1&sparkline=true''] \<and>
   data (step init (Fetch (Resolved [coin ''Bitcoin'' 1 [], coin ''Ethereum'' 2 []])))
     = [coin ''Bitcoin'' 1 [], coin ''Ethereum'' 2 []]"
  using initial_load [of "Rejected :: CoinType list response"
      "[coin ''Bitcoin'' 1 [], coin ''Ethereum'' 2 []]" init]
  by simp

section \<open>The rows of the table\<close>

lemma array_filter_loop_eq: "array_filter_loop p xs acc = acc @ filter p xs"
  by (induction xs arbitrary: acc) simp_all

lemma array_filter_eq: "array_filter p xs = filter p xs"
  by (simp add: array_filter_def array_filter_loop_eq)

lemma bit_in_Bitcoin: "str_includes (toLowerCase ''Bitcoin'') (toLowerCase ''bit'')"
  by code_simp

lemma bit_not_in_Ethereum: "\<not> str_includes (toLowerCase ''Ethereum'') (toLowerCase ''bit'')"
  by code_simp

lemma bit_in_Bitcoin_Cash: "str_includes (toLowerCase ''Bitcoin Cash'') (toLowerCase ''bit'')"
  by code_simp

lemma scenario_rows_with:
  assumes "data st = [a, b, c]"
    and "name a = ''Bitcoin''" and "name b = ''Ethereum''" and "name c = ''Bitcoin Cash''"
    and "filterQuery st = ''bit''"
    and "ascii_lowering lc st"
  shows "filteredData (filter_effect_with lc st) = [a, c]"
proof -
  from assms have l: "lc ''bit'' = toLowerCase ''bit''" "lc ''Bitcoin'' = toLowerCase ''Bitcoin''"
      "lc ''Ethereum'' = toLowerCase ''Ethereum''"
      "lc ''Bitcoin Cash'' = toLowerCase ''Bitcoin Cash''"
    by (simp_all add: ascii_lowering_def)
  have "filterQuery st \<noteq> []" using assms(5) by simp
  then show ?thesis
    using bit_in_Bitcoin bit_not_in_Ethereum bit_in_Bitcoin_Cash
    by (simp only: filter_effect_with_def array_filter_eq assms(1-5) l if_True filter.simps
          state.simps simp_thms if_False) simp
qed

lemma scenario_rows:
  assumes "data st = [a, b, c]"
    and "name a = ''Bitcoin''" and "name b = ''Ethereum''" and "name c = ''Bitcoin Cash''"
    and "filterQuery st = ''bit''"
  shows "filteredData (filter_effect st) = [a, c]"
  unfolding filter_effect_def
  by (rule scenario_rows_with [OF assms]) (simp add: ascii_lowering_def list_all_iff)


lemma three_coins_rows:
  "filteredData (filter_effect three_coins) = [coin ''Bitcoin'' 1 [], coin ''Bitcoin Cash'' 3 []]"
  by (rule scenario_rows [where b = "coin ''Ethereum'' 2 []"])
     (simp_all add: three_coins_def fetched_coins_def coin_def)

text \<open>
  Claim C6. With the empty query the rows of the table are the fetched collection, and
  the filter effect changes nothing; with another query the rows are the stored filtered
  set. An event that leaves the query empty leaves the stored filtered set as it was.
  So typing a query and then clearing it shows the whole fetched collection, while the
  stored filtered set is still the one computed for the query.
\<close>

theorem empty_query_shows_data:
  "(filterQuery st = [] \<longrightarrow> dataSource st = data st \<and> filter_effect st = st) \<and>
   (filterQuery st \<noteq> [] \<longrightarrow> dataSource st = filteredData st) \<and>
   (filterQuery (step st ev) = [] \<longrightarrow> filteredData (step st ev) = filteredData st) \<and>
   dataSource (step (step st (SearchInput q)) (SearchInput [])) = data st \<and>
   filteredData (step (step st (SearchInput q)) (SearchInput []))
     = filteredData (step st (SearchInput q))"
proof -
  have a: "filterQuery (step st ev) = [] \<longrightarrow> filteredData (step st ev) = filteredData st"
    by (cases ev)
       (auto simp: handleCurrencyChange_def handleSortOrder_def onChange_def setFilterQuery_def
          filter_effect_def filter_effect_with_def run_actions_def fetch_effect_def
          split: option.split response.split)
  have b: "data (step s (SearchInput x)) = data s" for s x
    by (simp add: filter_effect_def filter_effect_with_def setFilterQuery_def)
  have c: "filterQuery (step s (SearchInput x)) = x" for s x
    by (simp add: filter_effect_def filter_effect_with_def setFilterQuery_def)
  have d: "dataSource (step (step st (SearchInput q)) (SearchInput [])) = data st"
    unfolding dataSource_def c b by simp
  have e: "filteredData (step s (SearchInput [])) = filteredData s" for s
    by (simp add: filter_effect_def filter_effect_with_def setFilterQuery_def)
  have f: "filterQuery st = [] \<longrightarrow> dataSource st = data st \<and> filter_effect st = st"
    by (simp add: dataSource_def filter_effect_def filter_effect_with_def)
  have g: "filterQuery st \<noteq> [] \<longrightarrow> dataSource st = filteredData st"
    by (simp add: dataSource_def)
  from a d e f g show ?thesis by blast
qed


theorem empty_query_shows_data_witness:
  "filterQuery fetched_coins = [] \<and>
   dataSource fetched_coins = data fetched_coins \<and>
   dataSource (step (step fetched_coins (SearchInput ''bit'')) (SearchInput []))
     = data fetched_coins \<and>
   filteredData (step (step fetched_coins (SearchInput ''bit'')) (SearchInput []))
     = [coin ''Bitcoin'' 1 [], coin ''Bitcoin Cash'' 3 []]"
proof -
  have q: "filterQuery fetched_coins = []"
    by (simp add: fetched_coins_def init_def)
  have "step fetched_coins (SearchInput ''bit'') = filter_effect three_coins"
    by (simp add: q three_coins_def setFilterQuery_def)
  then have "filteredData (step fetched_coins (SearchInput ''bit''))
               = [coin ''Bitcoin'' 1 [], coin ''Bitcoin Cash'' 3 []]"
    by (simp only: three_coins_rows)
  with q empty_query_shows_data [of fetched_coins "SearchInput []" "''bit''"]
  show ?thesis by simp
qed

section \<open>The filter stage\<close>













section \<open>The filter of the price column\<close>

lemma split_go_skip:
  "\<forall>c\<in>set a. c \<noteq> CHR '' '' \<Longrightarrow>
   split_go '' - '' cur (a @ rest) = split_go '' - '' (rev a @ cur) rest"
  by (induction a arbitrary: cur) (auto simp: startsAt_def)

lemma split_go_sep: "split_go '' - '' cur ('' - '' @ rest) = rev cur # split_go '' - '' [] rest"
  by (simp add: startsAt_def)

lemma split_range:
  assumes "\<forall>c\<in>set a. c \<noteq> CHR '' ''" and "\<forall>c\<in>set b. c \<noteq> CHR '' ''"
  shows "split (a @ '' - '' @ b) '' - '' = [a, b]"
proof -
  have "split (a @ '' - '' @ b) '' - '' = split_go '' - '' [] (a @ ('' - '' @ b))"
    by (simp add: split_def)
  also have "\<dots> = split_go '' - '' (rev a) ('' - '' @ b)"
    using split_go_skip [OF assms(1), of "[]" "'' - '' @ b"] by simp
  also have "\<dots> = a # split_go '' - '' [] b"
    using split_go_sep [of "rev a" b] by simp
  also have "split_go '' - '' [] b = [b]"
    using split_go_skip [OF assms(2), of "[]" "[]"] by simp
  finally show ?thesis .
qed

lemma split_single:
  assumes "\<forall>c\<in>set a. c \<noteq> CHR '' ''"
  shows "split a '' - '' = [a]"
  using split_go_skip [OF assms, of "[]" "[]"] by (simp add: split_def)

lemma digit_not_space: "is_digit c \<Longrightarrow> c \<noteq> CHR '' ''"
  by (auto simp: is_digit_def)

lemma short_digits_no_space: "short_digits s \<Longrightarrow> \<forall>c\<in>set s. c \<noteq> CHR '' ''"
  by (auto simp: short_digits_def list_all_iff digit_not_space)

lemma Number_short_digits: "short_digits s \<Longrightarrow> Number (Some s) = Some (real (digits_value 0 s))"
  by (simp add: Number_def short_digits_def)

lemma onFilter_range:
  assumes "short_digits a" and "short_digits b"
  shows "onFilter (a @ '' - '' @ b) r =
           Some (real (digits_value 0 a) \<le> current_price r \<and>
                 current_price r \<le> real (digits_value 0 b))"
proof -
  have s: "split (a @ '' - '' @ b) '' - '' = [a, b]"
    by (rule split_range [OF short_digits_no_space [OF assms(1)]
          short_digits_no_space [OF assms(2)]])
  have "b \<noteq> []" using assms(2) by (simp add: short_digits_def)
  then show ?thesis
    unfolding onFilter_def s
    by (simp add: nth_opt_def truthy_def
          Number_short_digits [OF assms(1)] Number_short_digits [OF assms(2)])
qed

lemma onFilter_open:
  assumes "short_digits a"
  shows "onFilter a r = Some (real (digits_value 0 a) \<le> current_price r)"
proof -
  have s: "split a '' - '' = [a]"
    by (rule split_single [OF short_digits_no_space [OF assms]])
  show ?thesis
    unfolding onFilter_def s
    by (simp add: nth_opt_def truthy_def Number_short_digits [OF assms])
qed

lemma bound_0: "short_digits ''0'' \<and> digits_value 0 ''0'' = 0"
  by code_simp

lemma bound_100: "short_digits ''100'' \<and> digits_value 0 ''100'' = 100"
  by code_simp

lemma bound_200: "short_digits ''200'' \<and> digits_value 0 ''200'' = 200"
  by code_simp

lemma bound_300: "short_digits ''300'' \<and> digits_value 0 ''300'' = 300"
  by code_simp

lemma bound_400: "short_digits ''400'' \<and> digits_value 0 ''400'' = 400"
  by code_simp

lemma bound_500: "short_digits ''500'' \<and> digits_value 0 ''500'' = 500"
  by code_simp

lemma bound_600: "short_digits ''600'' \<and> digits_value 0 ''600'' = 600"
  by code_simp

lemma bound_700: "short_digits ''700'' \<and> digits_value 0 ''700'' = 700"
  by code_simp

lemma bucket_0_100:
  "onFilter ''0 - 100'' r = Some (0 \<le> current_price r \<and> current_price r \<le> 100)"
  using onFilter_range [of "''0''" "''100''" r] by (simp add: bound_0 bound_100)

lemma bucket_100_200:
  "onFilter ''100 - 200'' r = Some (100 \<le> current_price r \<and> current_price r \<le> 200)"
  using onFilter_range [of "''100''" "''200''" r] by (simp add: bound_100 bound_200)

lemma bucket_200_300:
  "onFilter ''200 - 300'' r = Some (200 \<le> current_price r \<and> current_price r \<le> 300)"
  using onFilter_range [of "''200''" "''300''" r] by (simp add: bound_200 bound_300)

lemma bucket_300_400:
  "onFilter ''300 - 400'' r = Some (300 \<le> current_price r \<and> current_price r \<le> 400)"
  using onFilter_range [of "''300''" "''400''" r] by (simp add: bound_300 bound_400)

lemma bucket_400_500:
  "onFilter ''400 - 500'' r = Some (400 \<le> current_price r \<and> current_price r \<le> 500)"
  using onFilter_range [of "''400''" "''500''" r] by (simp add: bound_400 bound_500)

lemma bucket_500_600:
  "onFilter ''500 - 600'' r = Some (500 \<le> current_price r \<and> current_price r \<le> 600)"
  using onFilter_range [of "''500''" "''600''" r] by (simp add: bound_500 bound_600)

lemma bucket_600_700:
  "onFilter ''600 - 700'' r = Some (600 \<le> current_price r \<and> current_price r \<le> 700)"
  using onFilter_range [of "''600''" "''700''" r] by (simp add: bound_600 bound_700)

lemma bucket_700:
  "onFilter ''700'' r = Some (700 \<le> current_price r)"
  using onFilter_open [of "''700''" r] by (simp add: bound_700)

lemma buckets_table:
  "map (\<lambda>(t, v). (t, onFilter v r)) filters =
   map (\<lambda>(t, b). (t, Some (spec_bucket_accepts b (current_price r)))) spec_buckets"
  by (simp add: filters_def spec_buckets_def spec_bucket_accepts_def
        bucket_0_100 bucket_100_200 bucket_200_300 bucket_300_400
        bucket_400_500 bucket_500_600 bucket_600_700 bucket_700)

text \<open>
  Claim C3. The filter of the price column accepts a record for the bucket \<open>300 - 400\<close>
  exactly when its price is at least 300 and at most 400, and for the bucket \<open>> 700\<close>
  (whose value is \<open>700\<close>) exactly when its price is at least 700. In general, for a value
  made of two bounds around \<open> - \<close> it accepts a price exactly when the price is at least
  the first bound and at most the second, and for a value that is one bound it accepts a
  price exactly when the price is at least that bound; for each of the eight buckets of
  the column this is the membership test of the specification.
\<close>

theorem onFilter_buckets:
  "(short_digits a \<and> short_digits b \<longrightarrow>
      onFilter (a @ '' - '' @ b) r =
        Some (real (digits_value 0 a) \<le> current_price r \<and>
              current_price r \<le> real (digits_value 0 b))) \<and>
   (short_digits a \<longrightarrow>
      onFilter a r = Some (real (digits_value 0 a) \<le> current_price r)) \<and>
   map_of filters ''300 - 400'' = Some ''300 - 400'' \<and>
   onFilter ''300 - 400'' r = Some (300 \<le> current_price r \<and> current_price r \<le> 400) \<and>
   map_of filters ''> 700'' = Some ''700'' \<and>
   onFilter ''700'' r = Some (current_price r \<ge> 700) \<and>
   map (\<lambda>(t, v). (t, onFilter v r)) filters =
     map (\<lambda>(t, b). (t, Some (spec_bucket_accepts b (current_price r)))) spec_buckets"
proof -
  have a: "short_digits a \<and> short_digits b \<longrightarrow>
      onFilter (a @ '' - '' @ b) r =
        Some (real (digits_value 0 a) \<le> current_price r \<and>
              current_price r \<le> real (digits_value 0 b))"
    using onFilter_range [of a b r] by blast
  have b: "short_digits a \<longrightarrow>
      onFilter a r = Some (real (digits_value 0 a) \<le> current_price r)"
    using onFilter_open [of a r] by blast
  have c: "map_of filters ''300 - 400'' = Some ''300 - 400''"
    by (simp add: filters_def)
  have d: "map_of filters ''> 700'' = Some ''700''"
    by (simp add: filters_def)
  show ?thesis
    by (intro conjI) (rule a, rule b, rule c, rule bucket_300_400, rule d, rule bucket_700,
      rule buckets_table)
qed

theorem onFilter_buckets_witness:
  "short_digits ''300'' \<and> short_digits ''400'' \<and>
   onFilter ''300 - 400'' (coin ''Bitcoin'' 350 []) = Some True \<and>
   onFilter ''300 - 400'' (coin ''Bitcoin'' 401 []) = Some False \<and>
   onFilter ''300'' (coin ''Bitcoin'' 350 []) = Some True"
proof -
  have s: "short_digits ''300'' \<and> short_digits ''400''"
    using bound_300 bound_400 by blast
  have v: "digits_value 0 ''300'' = 300" "digits_value 0 ''400'' = 400"
    using bound_300 bound_400 by blast+
  have p: "current_price (coin ''Bitcoin'' 350 []) = 350"
          "current_price (coin ''Bitcoin'' 401 []) = 401"
    by (simp_all add: coin_def)
  note t1 = onFilter_buckets [of "''300''" "''400''" "coin ''Bitcoin'' 350 []"]
  note t2 = onFilter_buckets [of "''300''" "''400''" "coin ''Bitcoin'' 401 []"]
  have a: "onFilter ''300 - 400'' (coin ''Bitcoin'' 350 []) = Some True"
    using t1 [THEN conjunct1, THEN mp, OF s] by (simp add: v p)
  have b: "onFilter ''300 - 400'' (coin ''Bitcoin'' 401 []) = Some False"
    using t2 [THEN conjunct1, THEN mp, OF s] by (simp add: v p)
  have c: "onFilter ''300'' (coin ''Bitcoin'' 350 []) = Some True"
    using t1 [THEN conjunct2, THEN conjunct1, THEN mp, OF s [THEN conjunct1]]
    by (simp add: v p)
  from s a b c show ?thesis by simp
qed


end
